theory Spec2Isabelle
  imports Main
begin

section \<open>The automaton (class AFD of lab2.py)\<close>

text \<open>
  Wherever the program holds a state it holds a Python value, and the program tells
  \<^verbatim>\<open>None\<close> from every other value (\<^verbatim>\<open>if next_state is None\<close>). A value in a state
  position is therefore \<^verbatim>\<open>None\<close> or a label; nothing keeps \<^verbatim>\<open>None\<close> out of the
  transition table, the start state or the lists of states.
\<close>

datatype 'l pyval = PyNone | Label 'l

text \<open>
  The class \<^verbatim>\<open>AFD\<close> stores five attributes: \<^verbatim>\<open>Q\<close>, \<^verbatim>\<open>Sigma\<close>, \<^verbatim>\<open>q0\<close>, \<^verbatim>\<open>F\<close>
  and \<^verbatim>\<open>delta\<close>. The first, second and fourth are Python lists, kept here as lists; the
  last is a dictionary keyed by (state, symbol) pairs, kept as a map. Symbols have type
  \<open>'a\<close>. The attribute \<^verbatim>\<open>Sigma\<close> is the field \<open>Sigma_afd\<close>, since \<open>Sigma\<close> is a
  constant of HOL.
\<close>

record ('l, 'a) afd =
  Q :: "'l pyval list"
  Sigma_afd :: "'a list"
  q0 :: "'l pyval"
  F :: "'l pyval list"
  delta :: "('l pyval \<times> 'a) \<rightharpoonup> 'l pyval"

text \<open>
  The argument \<^verbatim>\<open>delta\<close> of the constructor is either a dictionary or a list of triples
  (\<^verbatim>\<open>isinstance(delta, list)\<close>).
\<close>

datatype ('l, 'a) delta_spec =
  DeltaDict "('l pyval \<times> 'a) \<rightharpoonup> 'l pyval"
| DeltaList "('l pyval \<times> 'a \<times> 'l pyval) list"

text \<open>
  The loop \<^verbatim>\<open>for (q, a, q_prime) in delta: self.delta[(q, a)] = q_prime\<close>, with the
  dictionary built so far as accumulator.
\<close>

fun delta_from_list ::
  "(('l pyval \<times> 'a) \<rightharpoonup> 'l pyval) \<Rightarrow> ('l pyval \<times> 'a \<times> 'l pyval) list
     \<Rightarrow> (('l pyval \<times> 'a) \<rightharpoonup> 'l pyval)" where
  "delta_from_list m [] = m"
| "delta_from_list m ((q, a, q_prime) # ts) = delta_from_list (m((q, a) \<mapsto> q_prime)) ts"

definition AFD_init ::
  "'l pyval list \<Rightarrow> 'a list \<Rightarrow> 'l pyval \<Rightarrow> 'l pyval list \<Rightarrow> ('l, 'a) delta_spec
     \<Rightarrow> ('l, 'a) afd" where
  "AFD_init Q_arg Sigma_arg q0_arg F_arg delta_arg =
     \<lparr> Q = Q_arg, Sigma_afd = Sigma_arg, q0 = q0_arg, F = F_arg,
       delta = (case delta_arg of
                  DeltaList ts \<Rightarrow> delta_from_list Map.empty ts
                | DeltaDict m \<Rightarrow> m) \<rparr>"

section \<open>Queries\<close>

text \<open>
  Both \<^verbatim>\<open>raise ValueError\<close> statements of \<^verbatim>\<open>final_state\<close> and \<^verbatim>\<open>derivation\<close> are
  values of one error type; each carries what the message of the exception is built from.
\<close>

datatype ('l, 'a) error =
  SymbolNotInAlphabet 'a
| UndefinedTransition "'l pyval" 'a

text \<open>
  \<^verbatim>\<open>self.delta.get((q, a), None)\<close>: the stored value when the key is present, whatever
  it is, and \<^verbatim>\<open>None\<close> when the key is absent.
\<close>

definition transition :: "('l, 'a) afd \<Rightarrow> 'l pyval \<Rightarrow> 'a \<Rightarrow> 'l pyval" where
  "transition A q a = (case delta A (q, a) of None \<Rightarrow> PyNone | Some q_prime \<Rightarrow> q_prime)"

fun final_state :: "('l, 'a) afd \<Rightarrow> 'l pyval \<Rightarrow> 'a list \<Rightarrow> ('l, 'a) error + 'l pyval" where
  "final_state A current_state [] = Inr current_state"
| "final_state A current_state (symbol # w) =
     (if symbol \<notin> set (Sigma_afd A) then Inl (SymbolNotInAlphabet symbol)
      else let next_state = transition A current_state symbol in
        if next_state = PyNone then Inl (UndefinedTransition current_state symbol)
        else final_state A next_state w)"

text \<open>
  \<^verbatim>\<open>derivation\<close> carries the list \<^verbatim>\<open>derivation_steps\<close> through the loop and appends
  to it; \<open>derivation_loop\<close> is the loop, \<open>derivation\<close> starts it from the empty list.
\<close>

fun derivation_loop ::
  "('l, 'a) afd \<Rightarrow> ('l pyval \<times> 'a \<times> 'l pyval) list \<Rightarrow> 'l pyval \<Rightarrow> 'a list
     \<Rightarrow> ('l, 'a) error + ('l pyval \<times> 'a \<times> 'l pyval) list" where
  "derivation_loop A derivation_steps current_state [] = Inr derivation_steps"
| "derivation_loop A derivation_steps current_state (symbol # w) =
     (if symbol \<notin> set (Sigma_afd A) then Inl (SymbolNotInAlphabet symbol)
      else let next_state = transition A current_state symbol in
        if next_state = PyNone then Inl (UndefinedTransition current_state symbol)
        else derivation_loop A (derivation_steps @ [(current_state, symbol, next_state)])
               next_state w)"

definition derivation ::
  "('l, 'a) afd \<Rightarrow> 'l pyval \<Rightarrow> 'a list
     \<Rightarrow> ('l, 'a) error + ('l pyval \<times> 'a \<times> 'l pyval) list" where
  "derivation A q w = derivation_loop A [] q w"

text \<open>
  \<^verbatim>\<open>accepted\<close>: the parameter \<^verbatim>\<open>F=None\<close> is an option; \<^verbatim>\<open>except ValueError\<close> is the
  \<open>Inl\<close> branch.
\<close>

definition accepted ::
  "('l, 'a) afd \<Rightarrow> 'l pyval \<Rightarrow> 'a list \<Rightarrow> 'l pyval list option \<Rightarrow> bool" where
  "accepted A q w F_arg =
     (let F_used = (case F_arg of None \<Rightarrow> F A | Some F_given \<Rightarrow> F_given)
      in case final_state A q w of
           Inr st \<Rightarrow> st \<in> set F_used
         | Inl e \<Rightarrow> False)"

section \<open>The queries as methods on the object\<close>

text \<open>
  The methods receive the object \<^verbatim>\<open>self\<close> and could assign to its attributes. Here each
  method returns its result together with the object as the call leaves it, and every
  call inside a method hands the object on to the rest of the body.
\<close>

definition transition_st ::
  "('l, 'a) afd \<Rightarrow> 'l pyval \<Rightarrow> 'a \<Rightarrow> 'l pyval \<times> ('l, 'a) afd" where
  "transition_st self q a =
     ((case delta self (q, a) of None \<Rightarrow> PyNone | Some q_prime \<Rightarrow> q_prime), self)"

fun final_state_st ::
  "('l, 'a) afd \<Rightarrow> 'l pyval \<Rightarrow> 'a list \<Rightarrow> (('l, 'a) error + 'l pyval) \<times> ('l, 'a) afd" where
  "final_state_st self current_state [] = (Inr current_state, self)"
| "final_state_st self current_state (symbol # w) =
     (if symbol \<notin> set (Sigma_afd self) then (Inl (SymbolNotInAlphabet symbol), self)
      else case transition_st self current_state symbol of
             (next_state, self') \<Rightarrow>
               if next_state = PyNone
               then (Inl (UndefinedTransition current_state symbol), self')
               else final_state_st self' next_state w)"

fun derivation_loop_st ::
  "('l, 'a) afd \<Rightarrow> ('l pyval \<times> 'a \<times> 'l pyval) list \<Rightarrow> 'l pyval \<Rightarrow> 'a list
     \<Rightarrow> (('l, 'a) error + ('l pyval \<times> 'a \<times> 'l pyval) list) \<times> ('l, 'a) afd" where
  "derivation_loop_st self derivation_steps current_state [] = (Inr derivation_steps, self)"
| "derivation_loop_st self derivation_steps current_state (symbol # w) =
     (if symbol \<notin> set (Sigma_afd self) then (Inl (SymbolNotInAlphabet symbol), self)
      else case transition_st self current_state symbol of
             (next_state, self') \<Rightarrow>
               if next_state = PyNone
               then (Inl (UndefinedTransition current_state symbol), self')
               else derivation_loop_st self'
                      (derivation_steps @ [(current_state, symbol, next_state)]) next_state w)"

definition derivation_st ::
  "('l, 'a) afd \<Rightarrow> 'l pyval \<Rightarrow> 'a list
     \<Rightarrow> (('l, 'a) error + ('l pyval \<times> 'a \<times> 'l pyval) list) \<times> ('l, 'a) afd" where
  "derivation_st self q w = derivation_loop_st self [] q w"

definition accepted_st ::
  "('l, 'a) afd \<Rightarrow> 'l pyval \<Rightarrow> 'a list \<Rightarrow> 'l pyval list option \<Rightarrow> bool \<times> ('l, 'a) afd" where
  "accepted_st self q w F_arg =
     (let F_used = (case F_arg of None \<Rightarrow> F self | Some F_given \<Rightarrow> F_given)
      in case final_state_st self q w of
           (Inr st, self') \<Rightarrow> (st \<in> set F_used, self')
         | (Inl e, self') \<Rightarrow> (False, self'))"

section \<open>Runs with a transition at every step\<close>

text \<open>
  Two readings of "the transition path from \<open>q\<close> over \<open>w\<close> is fully defined". In the
  first the table has an entry for the pair met at every step, whatever the entry
  stores. In the second \<^verbatim>\<open>transition\<close> returns a state at every step, so that the
  second \<^verbatim>\<open>raise\<close> of the loops is never reached: the entry is there and does not
  store \<^verbatim>\<open>None\<close>.
\<close>

fun entries_on_path :: "('l, 'a) afd \<Rightarrow> 'l pyval \<Rightarrow> 'a list \<Rightarrow> bool" where
  "entries_on_path A q [] = True"
| "entries_on_path A q (a # w) =
     (case delta A (q, a) of None \<Rightarrow> False | Some q_prime \<Rightarrow> entries_on_path A q_prime w)"

fun path_defined :: "('l, 'a) afd \<Rightarrow> 'l pyval \<Rightarrow> 'a list \<Rightarrow> bool" where
  "path_defined A q [] = True"
| "path_defined A q (a # w) =
     (case delta A (q, a) of
        None \<Rightarrow> False
      | Some PyNone \<Rightarrow> False
      | Some (Label l) \<Rightarrow> path_defined A (Label l) w)"

section \<open>Example automata\<close>

text \<open>
  \<^verbatim>\<open>ejemplo_afd_1\<close> (strings over 0, 1 that end in 01, given by triples) and
  \<^verbatim>\<open>ejemplo_afd_2\<close> (an even number of a's, given by a dictionary). Input strings are
  read one character at a time, so symbols are characters.
\<close>

definition afd1 :: "(string, char) afd" where
  "afd1 = AFD_init [Label ''q0'', Label ''q1'', Label ''q2''] [CHR ''0'', CHR ''1'']
     (Label ''q0'') [Label ''q2'']
     (DeltaList
       [(Label ''q0'', CHR ''0'', Label ''q1''),
        (Label ''q0'', CHR ''1'', Label ''q0''),
        (Label ''q1'', CHR ''0'', Label ''q1''),
        (Label ''q1'', CHR ''1'', Label ''q2''),
        (Label ''q2'', CHR ''0'', Label ''q1''),
        (Label ''q2'', CHR ''1'', Label ''q0'')])"

definition afd2 :: "(string, char) afd" where
  "afd2 = AFD_init [Label ''par'', Label ''impar''] [CHR ''a'', CHR ''b'']
     (Label ''par'') [Label ''par'']
     (DeltaDict
       [(Label ''par'', CHR ''a'') \<mapsto> Label ''impar'',
        (Label ''par'', CHR ''b'') \<mapsto> Label ''par'',
        (Label ''impar'', CHR ''a'') \<mapsto> Label ''par'',
        (Label ''impar'', CHR ''b'') \<mapsto> Label ''impar''])"

text \<open>
  An automaton that the constructor builds although nothing in it fits together: the
  initial state \<open>zz\<close> and the accepting state \<open>yy\<close> are not in \<open>Q\<close>, the target \<open>t\<close> of
  the first triple is not in \<open>Q\<close>, and the second triple is for the symbol \<open>b\<close>, which is
  not in the alphabet.
\<close>

definition afd_dangling :: "(string, char) afd" where
  "afd_dangling = AFD_init [Label ''s''] [CHR ''a''] (Label ''zz'') [Label ''yy'']
     (DeltaList [(Label ''s'', CHR ''a'', Label ''t''), (Label ''s'', CHR ''b'', Label ''s'')])"

text \<open>
  An automaton whose only triple has \<^verbatim>\<open>None\<close> as its target, as a JSON file with
  \<^verbatim>\<open>["s", "a", null]\<close> among its triples gives:
  \<^verbatim>\<open>AFD(['s'], ['a'], 's', ['s'], [('s', 'a', None)])\<close>.
\<close>

definition afd_none :: "(string, char) afd" where
  "afd_none = AFD_init [Label ''s''] [CHR ''a''] (Label ''s'') [Label ''s'']
     (DeltaList [(Label ''s'', CHR ''a'', PyNone)])"

section \<open>Properties of the loops\<close>

text \<open>What \<^verbatim>\<open>transition\<close> returns, by what the table holds.\<close>

lemma transition_PyNone_iff:
  "transition A q a = PyNone \<longleftrightarrow> delta A (q, a) = None \<or> delta A (q, a) = Some PyNone"
  by (simp add: transition_def split: option.splits)

lemma transition_Label_iff:
  "transition A q a = Label l \<longleftrightarrow> delta A (q, a) = Some (Label l)"
  by (simp add: transition_def split: option.splits)

text \<open>Reading \<open>u @ v\<close> is reading \<open>u\<close> and, if that succeeds, reading \<open>v\<close> from there.\<close>

lemma final_state_append:
  "final_state A q (u @ v) =
     (case final_state A q u of Inl e \<Rightarrow> Inl e | Inr st \<Rightarrow> final_state A st v)"
  by (induction u arbitrary: q) (simp_all add: Let_def)

text \<open>The steps collected before the loop starts stay in front of the ones it adds.\<close>

lemma derivation_loop_acc:
  "derivation_loop A acc q w =
     (case derivation_loop A [] q w of Inl e \<Rightarrow> Inl e | Inr tr \<Rightarrow> Inr (acc @ tr))"
proof (induction w arbitrary: acc q)
  case Nil
  show ?case by simp
next
  case (Cons a w)
  show ?case
  proof (cases "a \<in> set (Sigma_afd A) \<and> transition A q a \<noteq> PyNone")
    case False
    then show ?thesis by (auto simp: Let_def)
  next
    case True
    define nxt where "nxt = transition A q a"
    have "derivation_loop A (acc @ [(q, a, nxt)]) nxt w =
            (case derivation_loop A [] nxt w of Inl e \<Rightarrow> Inl e
             | Inr tr \<Rightarrow> Inr ((acc @ [(q, a, nxt)]) @ tr))"
      by (rule Cons.IH)
    moreover have "derivation_loop A ([] @ [(q, a, nxt)]) nxt w =
            (case derivation_loop A [] nxt w of Inl e \<Rightarrow> Inl e
             | Inr tr \<Rightarrow> Inr (([] @ [(q, a, nxt)]) @ tr))"
      by (rule Cons.IH)
    ultimately show ?thesis using True
      by (simp add: Let_def nxt_def split: sum.splits)
  qed
qed

lemma derivation_Nil: "derivation A q [] = Inr []"
  by (simp add: derivation_def)

lemma derivation_Cons:
  "derivation A q (a # w) =
     (if a \<notin> set (Sigma_afd A) then Inl (SymbolNotInAlphabet a)
      else if transition A q a = PyNone then Inl (UndefinedTransition q a)
      else (case derivation A (transition A q a) w of
              Inl e \<Rightarrow> Inl e
            | Inr tr \<Rightarrow> Inr ((q, a, transition A q a) # tr)))"
  unfolding derivation_def
  by (simp add: Let_def derivation_loop_acc [of A "[(q, a, transition A q a)]"]
        split: sum.splits)

text \<open>
  The two loops side by side: the same error, or a trace as long as the input whose last
  step ends in the final state.
\<close>

lemma derivation_vs_final_state:
  "(case derivation A q w of
      Inl e \<Rightarrow> final_state A q w = Inl e
    | Inr tr \<Rightarrow> length tr = length w \<and>
               final_state A q w = Inr (if w = [] then q else snd (snd (last tr))))"
proof (induction w arbitrary: q)
  case Nil
  show ?case by (simp add: derivation_Nil)
next
  case (Cons a w)
  show ?case
  proof (cases "a \<in> set (Sigma_afd A) \<and> transition A q a \<noteq> PyNone")
    case False
    then show ?thesis by (auto simp: derivation_Cons Let_def)
  next
    case True
    show ?thesis
      using Cons.IH [of "transition A q a"] True
      by (cases "derivation A (transition A q a) w") (auto simp: derivation_Cons Let_def)
  qed
qed

section \<open>The example automata, evaluated\<close>

lemma Sigma_afd1: "Sigma_afd afd1 = [CHR ''0'', CHR ''1'']"
  by (simp add: afd1_def AFD_init_def)

lemma F_afd1: "F afd1 = [Label ''q2'']"
  by (simp add: afd1_def AFD_init_def)

lemma final_state_afd1_101: "final_state afd1 (Label ''q0'') ''101'' = Inr (Label ''q2'')"
  by (simp add: afd1_def AFD_init_def transition_def)

lemma final_state_afd1_012:
  "final_state afd1 (Label ''q0'') ''012'' = Inl (SymbolNotInAlphabet (CHR ''2''))"
  by (simp add: afd1_def AFD_init_def transition_def)

lemma derivation_afd1_101:
  "derivation afd1 (Label ''q0'') ''101'' =
     Inr [(Label ''q0'', CHR ''1'', Label ''q0''), (Label ''q0'', CHR ''0'', Label ''q1''),
          (Label ''q1'', CHR ''1'', Label ''q2'')]"
  by (simp add: afd1_def AFD_init_def transition_def derivation_def Let_def)

lemma path_defined_afd1_101: "path_defined afd1 (Label ''q0'') ''101''"
  by (simp add: afd1_def AFD_init_def)

section \<open>Runs that succeed\<close>

lemma path_defined_final_state:
  "set w \<subseteq> set (Sigma_afd A) \<Longrightarrow> path_defined A q w \<Longrightarrow> \<exists>st. final_state A q w = Inr st"
  by (induction w arbitrary: q)
     (auto simp: transition_def Let_def split: option.splits pyval.splits)

section \<open>Acceptance\<close>

text \<open>
  Claim C1. \<open>accepted\<close> answers true exactly when \<open>final_state\<close> succeeds and its result
  is in the accepting list in effect: the one given with the call, otherwise the
  automaton's own. When \<open>final_state\<close> fails, with either error, \<open>accepted\<close> answers
  false; it has no error result.
\<close>

theorem accepted_iff_final_state_in_accepting:
  "accepted A q w F_arg =
     (\<exists>st. final_state A q w = Inr st \<and>
           st \<in> set (case F_arg of None \<Rightarrow> F A | Some F_given \<Rightarrow> F_given)) \<and>
   (\<forall>e. final_state A q w = Inl e \<longrightarrow> \<not> accepted A q w F_arg)"
  by (cases "final_state A q w") (simp_all add: accepted_def)

theorem accepted_iff_final_state_in_accepting_witness:
  "accepted afd1 (Label ''q0'') ''101'' None \<and>
   \<not> accepted afd1 (Label ''q0'') ''101'' (Some [Label ''q0'']) \<and>
   final_state afd1 (Label ''q0'') ''012'' = Inl (SymbolNotInAlphabet (CHR ''2'')) \<and>
   \<not> accepted afd1 (Label ''q0'') ''012'' None \<and>
   \<not> accepted afd1 (Label ''q0'') ''012'' (Some [Label ''q0'', Label ''q1'', Label ''q2''])"
proof -
  have "accepted afd1 (Label ''q0'') ''101'' None"
    using accepted_iff_final_state_in_accepting [of afd1 "Label ''q0''" "''101''" None]
    by (simp add: final_state_afd1_101 F_afd1 del: final_state.simps)
  moreover have "\<not> accepted afd1 (Label ''q0'') ''101'' (Some [Label ''q0''])"
    using accepted_iff_final_state_in_accepting
            [of afd1 "Label ''q0''" "''101''" "Some [Label ''q0'']"]
    by (simp add: final_state_afd1_101 del: final_state.simps)
  moreover note final_state_afd1_012
  moreover have "\<not> accepted afd1 (Label ''q0'') ''012'' None"
    using accepted_iff_final_state_in_accepting [of afd1 "Label ''q0''" "''012''" None]
    by (simp add: final_state_afd1_012 del: final_state.simps)
  moreover have
    "\<not> accepted afd1 (Label ''q0'') ''012'' (Some [Label ''q0'', Label ''q1'', Label ''q2''])"
    using accepted_iff_final_state_in_accepting
            [of afd1 "Label ''q0''" "''012''" "Some [Label ''q0'', Label ''q1'', Label ''q2'']"]
    by (simp add: final_state_afd1_012 del: final_state.simps)
  ultimately show ?thesis by (intro conjI) assumption+
qed

section \<open>The final state and the trace\<close>

text \<open>
  Claim C5. On the empty input \<open>final_state\<close> returns the start state, whatever the
  automaton and whatever the start state, declared or not; on the automaton of
  \<^verbatim>\<open>ejemplo_afd_2\<close> the empty input from \<open>par\<close> gives \<open>par\<close>, and from the undeclared
  label \<open>zz\<close> it gives \<open>zz\<close>.
\<close>

theorem final_state_empty_input:
  "final_state A q [] = Inr q \<and>
   final_state afd2 (Label ''par'') '''' = Inr (Label ''par'') \<and>
   Label ''zz'' \<notin> set (Q afd2) \<and> final_state afd2 (Label ''zz'') '''' = Inr (Label ''zz'')"
  by (simp add: afd2_def AFD_init_def)

text \<open>
  Claim C6. A trace returned by \<open>derivation\<close> has exactly as many steps as the input has
  symbols, and on the empty input \<open>derivation\<close> returns the empty trace.
\<close>

theorem derivation_length:
  "(derivation A q w = Inr tr \<longrightarrow> length tr = length w) \<and> derivation A q [] = Inr []"
proof (intro conjI impI)
  assume d: "derivation A q w = Inr tr"
  show "length tr = length w"
    using derivation_vs_final_state [of A q w] by (simp add: d)
next
  show "derivation A q [] = Inr []" by (rule derivation_Nil)
qed

theorem derivation_length_witness:
  "derivation afd1 (Label ''q0'') ''101'' =
     Inr [(Label ''q0'', CHR ''1'', Label ''q0''), (Label ''q0'', CHR ''0'', Label ''q1''),
          (Label ''q1'', CHR ''1'', Label ''q2'')] \<and>
   length [(Label ''q0'', CHR ''1'', Label ''q0''), (Label ''q0'', CHR ''0'', Label ''q1''),
           (Label ''q1'', CHR ''1'', Label ''q2'')]
     = length ''101''"
proof -
  have d: "derivation afd1 (Label ''q0'') ''101'' =
     Inr [(Label ''q0'', CHR ''1'', Label ''q0''), (Label ''q0'', CHR ''0'', Label ''q1''),
          (Label ''q1'', CHR ''1'', Label ''q2'')]"
    by (rule derivation_afd1_101)
  have "length [(Label ''q0'', CHR ''1'', Label ''q0''), (Label ''q0'', CHR ''0'', Label ''q1''),
           (Label ''q1'', CHR ''1'', Label ''q2'')]
     = length ''101''"
    using derivation_length [of afd1 "Label ''q0''" "''101''"
      "[(Label ''q0'', CHR ''1'', Label ''q0''), (Label ''q0'', CHR ''0'', Label ''q1''),
        (Label ''q1'', CHR ''1'', Label ''q2'')]"] d
    by (simp only: simp_thms)
  with d show ?thesis by (intro conjI) assumption+
qed

section \<open>Failures\<close>

lemma derivation_Inl_iff: "derivation A q w = Inl e \<longleftrightarrow> final_state A q w = Inl e"
  using derivation_vs_final_state [of A q w]
  by (cases "derivation A q w") auto

lemma derivation_Inr_iff:
  "(\<exists>tr. derivation A q w = Inr tr) \<longleftrightarrow> (\<exists>st. final_state A q w = Inr st)"
  using derivation_vs_final_state [of A q w]
  by (cases "derivation A q w") auto

text \<open>
  A failed run has a first failing position: the symbols before it are read without
  error, and reading one more symbol gives the error of the whole run.
\<close>

lemma final_state_first_error:
  "final_state A q w = Inl e \<Longrightarrow>
     \<exists>i<length w. (\<exists>st. final_state A q (take i w) = Inr st) \<and>
                  final_state A q (take (Suc i) w) = Inl e"
proof (induction w arbitrary: q)
  case Nil
  then show ?case by simp
next
  case (Cons a w)
  show ?case
  proof (cases "a \<in> set (Sigma_afd A) \<and> transition A q a \<noteq> PyNone")
    case False
    with Cons.prems have "final_state A q (take (Suc 0) (a # w)) = Inl e"
      by (auto simp: Let_def)
    moreover have "\<exists>st. final_state A q (take 0 (a # w)) = Inr st"
      by simp
    ultimately show ?thesis by blast
  next
    case True
    define nxt where "nxt = transition A q a"
    from True have nxt: "transition A q a = nxt" "nxt \<noteq> PyNone" and a: "a \<in> set (Sigma_afd A)"
      by (simp_all add: nxt_def)
    with Cons.prems have "final_state A nxt w = Inl e" by (simp add: Let_def)
    from Cons.IH [OF this] obtain i where i: "i < length w"
      and ok: "\<exists>st. final_state A nxt (take i w) = Inr st"
      and err: "final_state A nxt (take (Suc i) w) = Inl e"
      by blast
    have "Suc i < length (a # w)" using i by simp
    moreover have "\<exists>st. final_state A q (take (Suc i) (a # w)) = Inr st"
      using ok a nxt by (simp add: Let_def)
    moreover have "final_state A q (take (Suc (Suc i)) (a # w)) = Inl e"
      using err a nxt by (simp add: Let_def)
    ultimately show ?thesis by blast
  qed
qed

text \<open>What an error says about the automaton.\<close>

lemma final_state_error_sound:
  "final_state A q w = Inl e \<Longrightarrow>
     (case e of
        SymbolNotInAlphabet b \<Rightarrow> b \<in> set w \<and> b \<notin> set (Sigma_afd A)
      | UndefinedTransition s b \<Rightarrow>
          b \<in> set w \<and> b \<in> set (Sigma_afd A) \<and> transition A s b = PyNone)"
proof (induction w arbitrary: q)
  case Nil
  then show ?case by simp
next
  case (Cons a w)
  show ?case
  proof (cases "a \<in> set (Sigma_afd A)")
    case False
    with Cons.prems show ?thesis by auto
  next
    case True
    show ?thesis
    proof (cases "transition A q a = PyNone")
      case PyNone: True
      with True Cons.prems show ?thesis by auto
    next
      case False
      with True Cons.prems have "final_state A (transition A q a) w = Inl e"
        by (simp add: Let_def)
      from Cons.IH [OF this] show ?thesis by (cases e) auto
    qed
  qed
qed

text \<open>
  Claim C3. \<open>derivation\<close> and \<open>final_state\<close> fail on the same inputs with the same
  error, and succeed on the same inputs. The error is decided at one position \<open>i\<close> of
  the input for both: both read the first \<open>i\<close> symbols without error, and both give the
  error once the next symbol is added. A failed \<open>derivation\<close> is the error alone: its
  result carries no trace.
\<close>

theorem derivation_fails_as_final_state:
  "(\<forall>e. derivation A q w = Inl e \<longleftrightarrow> final_state A q w = Inl e) \<and>
   ((\<exists>tr. derivation A q w = Inr tr) \<longleftrightarrow> (\<exists>st. final_state A q w = Inr st)) \<and>
   (\<forall>e. final_state A q w = Inl e \<longrightarrow>
      (\<exists>i<length w.
         (\<exists>st. final_state A q (take i w) = Inr st) \<and>
         (\<exists>tr. derivation A q (take i w) = Inr tr) \<and>
         final_state A q (take (Suc i) w) = Inl e \<and>
         derivation A q (take (Suc i) w) = Inl e))"
proof (intro conjI allI impI)
  fix e show "derivation A q w = Inl e \<longleftrightarrow> final_state A q w = Inl e"
    by (rule derivation_Inl_iff)
next
  show "(\<exists>tr. derivation A q w = Inr tr) \<longleftrightarrow> (\<exists>st. final_state A q w = Inr st)"
    by (rule derivation_Inr_iff)
next
  fix e assume "final_state A q w = Inl e"
  from final_state_first_error [OF this] obtain i where i: "i < length w"
    and ok: "\<exists>st. final_state A q (take i w) = Inr st"
    and err: "final_state A q (take (Suc i) w) = Inl e"
    by blast
  from ok have "\<exists>tr. derivation A q (take i w) = Inr tr"
    by (simp only: derivation_Inr_iff)
  moreover from err have "derivation A q (take (Suc i) w) = Inl e"
    by (simp only: derivation_Inl_iff)
  ultimately show "\<exists>i<length w.
         (\<exists>st. final_state A q (take i w) = Inr st) \<and>
         (\<exists>tr. derivation A q (take i w) = Inr tr) \<and>
         final_state A q (take (Suc i) w) = Inl e \<and>
         derivation A q (take (Suc i) w) = Inl e"
    using i ok err by blast
qed

theorem derivation_fails_as_final_state_witness:
  "final_state afd1 (Label ''q0'') ''012'' = Inl (SymbolNotInAlphabet (CHR ''2'')) \<and>
   derivation afd1 (Label ''q0'') ''012'' = Inl (SymbolNotInAlphabet (CHR ''2'')) \<and>
   (\<exists>i<length ''012''.
      (\<exists>st. final_state afd1 (Label ''q0'') (take i ''012'') = Inr st) \<and>
      (\<exists>tr. derivation afd1 (Label ''q0'') (take i ''012'') = Inr tr) \<and>
      final_state afd1 (Label ''q0'') (take (Suc i) ''012'') =
        Inl (SymbolNotInAlphabet (CHR ''2'')) \<and>
      derivation afd1 (Label ''q0'') (take (Suc i) ''012'') =
        Inl (SymbolNotInAlphabet (CHR ''2'')))"
proof -
  note inst = derivation_fails_as_final_state [of afd1 "Label ''q0''" "''012''"]
  have f: "final_state afd1 (Label ''q0'') ''012'' = Inl (SymbolNotInAlphabet (CHR ''2''))"
    by (rule final_state_afd1_012)
  from inst have
    "derivation afd1 (Label ''q0'') ''012'' = Inl (SymbolNotInAlphabet (CHR ''2'')) \<longleftrightarrow>
      final_state afd1 (Label ''q0'') ''012'' = Inl (SymbolNotInAlphabet (CHR ''2''))"
    by (elim conjE allE)
  with f have d: "derivation afd1 (Label ''q0'') ''012'' = Inl (SymbolNotInAlphabet (CHR ''2''))"
    by (rule iffD2 [rotated])
  from inst have
    "final_state afd1 (Label ''q0'') ''012'' = Inl (SymbolNotInAlphabet (CHR ''2'')) \<longrightarrow>
     (\<exists>i<length ''012''.
      (\<exists>st. final_state afd1 (Label ''q0'') (take i ''012'') = Inr st) \<and>
      (\<exists>tr. derivation afd1 (Label ''q0'') (take i ''012'') = Inr tr) \<and>
      final_state afd1 (Label ''q0'') (take (Suc i) ''012'') =
        Inl (SymbolNotInAlphabet (CHR ''2'')) \<and>
      derivation afd1 (Label ''q0'') (take (Suc i) ''012'') =
        Inl (SymbolNotInAlphabet (CHR ''2'')))"
    by (elim conjE allE)
  from this f have "\<exists>i<length ''012''.
      (\<exists>st. final_state afd1 (Label ''q0'') (take i ''012'') = Inr st) \<and>
      (\<exists>tr. derivation afd1 (Label ''q0'') (take i ''012'') = Inr tr) \<and>
      final_state afd1 (Label ''q0'') (take (Suc i) ''012'') =
        Inl (SymbolNotInAlphabet (CHR ''2'')) \<and>
      derivation afd1 (Label ''q0'') (take (Suc i) ''012'') =
        Inl (SymbolNotInAlphabet (CHR ''2''))"
    by (rule mp)
  with f d show ?thesis by (intro conjI) assumption+
qed

section \<open>An entry that stores None\<close>

lemma Sigma_afd_none: "Sigma_afd afd_none = [CHR ''a'']"
  by (simp add: afd_none_def AFD_init_def)

lemma delta_afd_none: "delta afd_none (Label ''s'', CHR ''a'') = Some PyNone"
  by (simp add: afd_none_def AFD_init_def)

lemma entries_on_path_afd_none: "entries_on_path afd_none (Label ''s'') ''a''"
  by (simp add: afd_none_def AFD_init_def)

lemma final_state_afd_none:
  "final_state afd_none (Label ''s'') ''a'' = Inl (UndefinedTransition (Label ''s'') (CHR ''a''))"
  by (simp add: afd_none_def AFD_init_def transition_def)

lemma derivation_afd_none:
  "derivation afd_none (Label ''s'') ''a'' = Inl (UndefinedTransition (Label ''s'') (CHR ''a''))"
  by (simp add: afd_none_def AFD_init_def transition_def derivation_def)

text \<open>
  Claim C2, as stated, fails. In \<open>afd_none\<close> the symbol \<open>a\<close> is in the alphabet and the
  table has an entry for the only pair on the path from \<open>s\<close> over \<open>a\<close>, but the entry
  stores \<^verbatim>\<open>None\<close>, and \<open>final_state\<close> and \<open>derivation\<close> both fail.
\<close>

theorem final_state_is_last_of_derivation_counterexample:
  "set ''a'' \<subseteq> set (Sigma_afd afd_none) \<and>
   entries_on_path afd_none (Label ''s'') ''a'' \<and>
   final_state afd_none (Label ''s'') ''a'' =
     Inl (UndefinedTransition (Label ''s'') (CHR ''a'')) \<and>
   derivation afd_none (Label ''s'') ''a'' =
     Inl (UndefinedTransition (Label ''s'') (CHR ''a''))"
proof (intro conjI)
  show "set ''a'' \<subseteq> set (Sigma_afd afd_none)" by (simp add: Sigma_afd_none)
  show "entries_on_path afd_none (Label ''s'') ''a''" by (rule entries_on_path_afd_none)
  show "final_state afd_none (Label ''s'') ''a'' =
     Inl (UndefinedTransition (Label ''s'') (CHR ''a''))" by (rule final_state_afd_none)
  show "derivation afd_none (Label ''s'') ''a'' =
     Inl (UndefinedTransition (Label ''s'') (CHR ''a''))" by (rule derivation_afd_none)
qed

text \<open>
  Claim C2, amended. When every symbol of \<open>w\<close> is in the alphabet and the run from \<open>q\<close>
  finds at every step a table entry that stores a state and not \<^verbatim>\<open>None\<close>,
  \<open>final_state\<close> and \<open>derivation\<close> both succeed, and the final state is the third
  component of the last step of the trace, or \<open>q\<close> itself when \<open>w\<close> is empty.
\<close>

theorem final_state_is_last_of_derivation:
  assumes "set w \<subseteq> set (Sigma_afd A)" and "path_defined A q w"
  shows "\<exists>tr. derivation A q w = Inr tr \<and>
              final_state A q w = Inr (if w = [] then q else snd (snd (last tr)))"
proof -
  from path_defined_final_state [OF assms]
  obtain st where st: "final_state A q w = Inr st" ..
  show ?thesis
  proof (cases "derivation A q w")
    case (Inl e)
    with derivation_vs_final_state [of A q w] st show ?thesis by simp
  next
    case (Inr tr)
    with derivation_vs_final_state [of A q w] show ?thesis by simp
  qed
qed

theorem final_state_is_last_of_derivation_witness:
  "set ''101'' \<subseteq> set (Sigma_afd afd1) \<and> path_defined afd1 (Label ''q0'') ''101'' \<and>
   (\<exists>tr. derivation afd1 (Label ''q0'') ''101'' = Inr tr \<and>
         final_state afd1 (Label ''q0'') ''101'' = Inr (snd (snd (last tr))))"
proof -
  have h1: "set ''101'' \<subseteq> set (Sigma_afd afd1)"
    by (simp add: Sigma_afd1)
  have h2: "path_defined afd1 (Label ''q0'') ''101''"
    by (rule path_defined_afd1_101)
  have "\<exists>tr. derivation afd1 (Label ''q0'') ''101'' = Inr tr \<and>
         final_state afd1 (Label ''q0'') ''101'' =
           Inr (if ''101'' = [] then Label ''q0'' else snd (snd (last tr)))"
    by (rule final_state_is_last_of_derivation [OF h1 h2])
  then have "\<exists>tr. derivation afd1 (Label ''q0'') ''101'' = Inr tr \<and>
         final_state afd1 (Label ''q0'') ''101'' = Inr (snd (snd (last tr)))"
    by (simp del: final_state.simps)
  with h1 h2 show ?thesis by (intro conjI) assumption+
qed

section \<open>The order of the checks\<close>

lemma final_state_afd_dangling_b:
  "final_state afd_dangling (Label ''s'') ''b'' = Inl (SymbolNotInAlphabet (CHR ''b''))"
  by (simp add: afd_dangling_def AFD_init_def transition_def)

lemma delta_afd_dangling_b:
  "delta afd_dangling (Label ''s'', CHR ''b'') = Some (Label ''s'')"
  by (simp add: afd_dangling_def AFD_init_def)

lemma delta_afd_dangling_t: "delta afd_dangling (Label ''t'', CHR ''a'') = None"
  by (simp add: afd_dangling_def AFD_init_def)

lemma Sigma_afd_dangling: "Sigma_afd afd_dangling = [CHR ''a'']"
  by (simp add: afd_dangling_def AFD_init_def)

lemma final_state_afd_dangling_a:
  "final_state afd_dangling (Label ''s'') ''a'' = Inr (Label ''t'')"
  by (simp add: afd_dangling_def AFD_init_def transition_def)

text \<open>
  Claim C4, as stated, fails in its "only when": in \<open>afd_none\<close> the symbol \<open>a\<close> is in
  the alphabet and the table has an entry for \<open>(s, a)\<close>, and \<open>final_state\<close> fails with
  \<open>UndefinedTransition\<close> all the same, because the entry stores \<^verbatim>\<open>None\<close>.
\<close>

theorem alphabet_checked_before_table_counterexample:
  "CHR ''a'' \<in> set (Sigma_afd afd_none) \<and>
   (Label ''s'', CHR ''a'') \<in> dom (delta afd_none) \<and>
   delta afd_none (Label ''s'', CHR ''a'') = Some PyNone \<and>
   final_state afd_none (Label ''s'') ''a'' =
     Inl (UndefinedTransition (Label ''s'') (CHR ''a''))"
proof (intro conjI)
  show "CHR ''a'' \<in> set (Sigma_afd afd_none)" by (simp add: Sigma_afd_none)
  show "(Label ''s'', CHR ''a'') \<in> dom (delta afd_none)"
    using delta_afd_none by (rule domI)
  show "delta afd_none (Label ''s'', CHR ''a'') = Some PyNone" by (rule delta_afd_none)
  show "final_state afd_none (Label ''s'') ''a'' =
     Inl (UndefinedTransition (Label ''s'') (CHR ''a''))" by (rule final_state_afd_none)
qed

text \<open>
  Claim C4, amended. At every position of a run (after a prefix \<open>u\<close> read without
  error, in state \<open>st\<close>) the next symbol \<open>a\<close> is checked against the alphabet first:
  outside the alphabet the run fails with \<open>SymbolNotInAlphabet\<close>, whatever the table
  holds for \<open>(st, a)\<close>; in the alphabet, and with no table entry for \<open>(st, a)\<close> or with
  an entry that stores \<^verbatim>\<open>None\<close>, it fails with \<open>UndefinedTransition\<close>; in both cases
  the rest \<open>v\<close> of the input is not looked at. With an entry that stores a state the run
  goes on from that state. Conversely an \<open>UndefinedTransition\<close> error names a symbol of
  the alphabet and a pair without entry or with \<^verbatim>\<open>None\<close> stored, and a
  \<open>SymbolNotInAlphabet\<close> error names a symbol outside the alphabet. The same holds for
  \<open>derivation\<close>.
\<close>

theorem alphabet_checked_before_table:
  "(final_state A q u = Inr st \<longrightarrow>
      (a \<notin> set (Sigma_afd A) \<longrightarrow>
         final_state A q (u @ a # v) = Inl (SymbolNotInAlphabet a) \<and>
         derivation A q (u @ a # v) = Inl (SymbolNotInAlphabet a)) \<and>
      (a \<in> set (Sigma_afd A) \<and>
       (delta A (st, a) = None \<or> delta A (st, a) = Some PyNone) \<longrightarrow>
         final_state A q (u @ a # v) = Inl (UndefinedTransition st a) \<and>
         derivation A q (u @ a # v) = Inl (UndefinedTransition st a)) \<and>
      (\<forall>l. a \<in> set (Sigma_afd A) \<and> delta A (st, a) = Some (Label l) \<longrightarrow>
         final_state A q (u @ a # v) = final_state A (Label l) v)) \<and>
   (\<forall>s b. final_state A q w = Inl (UndefinedTransition s b) \<or>
          derivation A q w = Inl (UndefinedTransition s b) \<longrightarrow>
          b \<in> set (Sigma_afd A) \<and>
          (delta A (s, b) = None \<or> delta A (s, b) = Some PyNone)) \<and>
   (\<forall>b. final_state A q w = Inl (SymbolNotInAlphabet b) \<or>
        derivation A q w = Inl (SymbolNotInAlphabet b) \<longrightarrow>
        b \<notin> set (Sigma_afd A))"
proof (intro conjI allI impI)
  assume u: "final_state A q u = Inr st" and a: "a \<notin> set (Sigma_afd A)"
  show "final_state A q (u @ a # v) = Inl (SymbolNotInAlphabet a)"
    using u a by (simp add: final_state_append)
  then show "derivation A q (u @ a # v) = Inl (SymbolNotInAlphabet a)"
    by (simp only: derivation_Inl_iff)
next
  assume u: "final_state A q u = Inr st"
    and a: "a \<in> set (Sigma_afd A) \<and>
            (delta A (st, a) = None \<or> delta A (st, a) = Some PyNone)"
  then have "transition A st a = PyNone"
    by (simp only: transition_PyNone_iff)
  with u a show "final_state A q (u @ a # v) = Inl (UndefinedTransition st a)"
    by (simp add: final_state_append)
  then show "derivation A q (u @ a # v) = Inl (UndefinedTransition st a)"
    by (simp only: derivation_Inl_iff)
next
  fix l
  assume u: "final_state A q u = Inr st"
    and a: "a \<in> set (Sigma_afd A) \<and> delta A (st, a) = Some (Label l)"
  then have "transition A st a = Label l"
    by (simp only: transition_Label_iff)
  with u a show "final_state A q (u @ a # v) = final_state A (Label l) v"
    by (simp add: final_state_append)
next
  fix s b
  assume "final_state A q w = Inl (UndefinedTransition s b) \<or>
          derivation A q w = Inl (UndefinedTransition s b)"
  then have e: "final_state A q w = Inl (UndefinedTransition s b)"
    by (simp only: derivation_Inl_iff simp_thms)
  from final_state_error_sound [OF e]
  show "b \<in> set (Sigma_afd A)"
    and "delta A (s, b) = None \<or> delta A (s, b) = Some PyNone"
    by (simp_all add: transition_PyNone_iff)
next
  fix b
  assume "final_state A q w = Inl (SymbolNotInAlphabet b) \<or>
          derivation A q w = Inl (SymbolNotInAlphabet b)"
  then have e: "final_state A q w = Inl (SymbolNotInAlphabet b)"
    by (simp only: derivation_Inl_iff simp_thms)
  from final_state_error_sound [OF e]
  show "b \<notin> set (Sigma_afd A)" by simp
qed

theorem alphabet_checked_before_table_witness:
  "delta afd_dangling (Label ''s'', CHR ''b'') = Some (Label ''s'') \<and>
   final_state afd_dangling (Label ''s'') ''ba'' = Inl (SymbolNotInAlphabet (CHR ''b'')) \<and>
   derivation afd_dangling (Label ''s'') ''ba'' = Inl (SymbolNotInAlphabet (CHR ''b'')) \<and>
   final_state afd_dangling (Label ''s'') ''aab'' =
     Inl (UndefinedTransition (Label ''t'') (CHR ''a'')) \<and>
   derivation afd_dangling (Label ''s'') ''aab'' =
     Inl (UndefinedTransition (Label ''t'') (CHR ''a'')) \<and>
   derivation afd_none (Label ''s'') ''aa'' =
     Inl (UndefinedTransition (Label ''s'') (CHR ''a''))"
proof -
  have u0: "final_state afd_dangling (Label ''s'') [] = Inr (Label ''s'')" by simp
  have b: "CHR ''b'' \<notin> set (Sigma_afd afd_dangling)"
    by (simp add: Sigma_afd_dangling)
  have a: "CHR ''a'' \<in> set (Sigma_afd afd_dangling) \<and>
           (delta afd_dangling (Label ''t'', CHR ''a'') = None \<or>
            delta afd_dangling (Label ''t'', CHR ''a'') = Some PyNone)"
    by (simp add: Sigma_afd_dangling delta_afd_dangling_t)
  have n0: "final_state afd_none (Label ''s'') [] = Inr (Label ''s'')" by simp
  have n: "CHR ''a'' \<in> set (Sigma_afd afd_none) \<and>
           (delta afd_none (Label ''s'', CHR ''a'') = None \<or>
            delta afd_none (Label ''s'', CHR ''a'') = Some PyNone)"
    by (simp add: Sigma_afd_none delta_afd_none)
  have 1: "final_state afd_dangling (Label ''s'') ([] @ CHR ''b'' # ''a'') =
             Inl (SymbolNotInAlphabet (CHR ''b'')) \<and>
           derivation afd_dangling (Label ''s'') ([] @ CHR ''b'' # ''a'') =
             Inl (SymbolNotInAlphabet (CHR ''b''))"
    by (rule alphabet_checked_before_table
               [of afd_dangling "Label ''s''" "[]" "Label ''s''" "CHR ''b''" "''a''" "[]",
                THEN conjunct1, THEN mp, OF u0, THEN conjunct1, THEN mp, OF b])
  have 2: "final_state afd_dangling (Label ''s'') (''a'' @ CHR ''a'' # ''b'') =
             Inl (UndefinedTransition (Label ''t'') (CHR ''a'')) \<and>
           derivation afd_dangling (Label ''s'') (''a'' @ CHR ''a'' # ''b'') =
             Inl (UndefinedTransition (Label ''t'') (CHR ''a''))"
    by (rule alphabet_checked_before_table
               [of afd_dangling "Label ''s''" "''a''" "Label ''t''" "CHR ''a''" "''b''" "[]",
                THEN conjunct1, THEN mp, OF final_state_afd_dangling_a,
                THEN conjunct2, THEN conjunct1, THEN mp, OF a])
  have 3: "final_state afd_none (Label ''s'') ([] @ CHR ''a'' # ''a'') =
             Inl (UndefinedTransition (Label ''s'') (CHR ''a'')) \<and>
           derivation afd_none (Label ''s'') ([] @ CHR ''a'' # ''a'') =
             Inl (UndefinedTransition (Label ''s'') (CHR ''a''))"
    by (rule alphabet_checked_before_table
               [of afd_none "Label ''s''" "[]" "Label ''s''" "CHR ''a''" "''a''" "[]",
                THEN conjunct1, THEN mp, OF n0,
                THEN conjunct2, THEN conjunct1, THEN mp, OF n])
  from 1 2 3 delta_afd_dangling_b show ?thesis
    by (simp only: append.simps)
qed

section \<open>Construction\<close>

text \<open>The dictionary built from a list of triples: later triples overwrite earlier ones.\<close>

lemma delta_from_list_map_of:
  "delta_from_list m ts = m ++ map_of (rev (map (\<lambda>(q, a, t). ((q, a), t)) ts))"
proof (induction ts arbitrary: m)
  case Nil
  show ?case by simp
next
  case (Cons x ts)
  obtain q a t where x: "x = (q, a, t)" by (cases x)
  have "delta_from_list m (x # ts) = delta_from_list (m((q, a) \<mapsto> t)) ts"
    by (simp add: x)
  also have "\<dots> = m((q, a) \<mapsto> t) ++ map_of (rev (map (\<lambda>(q, a, t). ((q, a), t)) ts))"
    by (rule Cons.IH)
  also have "\<dots> = m ++ map_of (rev (map (\<lambda>(q, a, t). ((q, a), t)) (x # ts)))"
    by (simp add: x map_add_upd_left fun_eq_iff map_add_def split: option.splits)
  finally show ?case .
qed

lemma delta_from_list_append:
  "delta_from_list m (xs @ ys) = delta_from_list (delta_from_list m xs) ys"
  by (induction xs arbitrary: m) auto

lemma delta_from_list_other:
  "\<forall>tr\<in>set zs. (fst tr, fst (snd tr)) \<noteq> k \<Longrightarrow> delta_from_list m zs k = m k"
  by (induction zs arbitrary: m) auto

lemma delta_from_list_last_wins:
  assumes "\<forall>tr\<in>set zs. (fst tr, fst (snd tr)) \<noteq> (q, a)"
  shows "delta_from_list m (xs @ (q, a, t) # zs) (q, a) = Some t"
proof -
  have "delta_from_list m (xs @ (q, a, t) # zs) (q, a) =
        delta_from_list ((delta_from_list m xs)((q, a) \<mapsto> t)) zs (q, a)"
    by (simp add: delta_from_list_append)
  also have "\<dots> = ((delta_from_list m xs)((q, a) \<mapsto> t)) (q, a)"
    by (rule delta_from_list_other [OF assms])
  finally show ?thesis by simp
qed

lemma dom_delta_from_list:
  "dom (delta_from_list m ts) = dom m \<union> (\<lambda>(q, a, t). (q, a)) ` set ts"
  by (simp add: delta_from_list_map_of dom_map_of_conv_image_fst image_image split_def
        Un_commute)

text \<open>
  Claim C7, as stated, fails in its last part. Built from the triples \<open>(s, a, t)\<close> and
  \<open>(s, a, None)\<close>, the table holds the later target \<^verbatim>\<open>None\<close> for \<open>(s, a)\<close>, and
  \<open>final_state\<close> from \<open>s\<close> on the symbol \<open>a\<close> of the alphabet does not return it: it
  fails with \<open>UndefinedTransition\<close>.
\<close>

theorem AFD_init_last_write_wins_counterexample:
  "delta (AFD_init [Label ''s'', Label ''t''] [CHR ''a''] (Label ''s'') [Label ''t'']
            (DeltaList [(Label ''s'', CHR ''a'', Label ''t''), (Label ''s'', CHR ''a'', PyNone)]))
     (Label ''s'', CHR ''a'') = Some PyNone \<and>
   final_state (AFD_init [Label ''s'', Label ''t''] [CHR ''a''] (Label ''s'') [Label ''t'']
            (DeltaList [(Label ''s'', CHR ''a'', Label ''t''), (Label ''s'', CHR ''a'', PyNone)]))
     (Label ''s'') ''a'' = Inl (UndefinedTransition (Label ''s'') (CHR ''a''))"
  by (simp add: AFD_init_def transition_def)

text \<open>
  Claim C7, amended. The constructor takes the transitions as a dictionary, which it
  stores as it is, or as a list of triples, for which it stores the dictionary that a
  dictionary argument could have given directly. In a list, the last triple for a pair
  \<open>(q, a)\<close> decides: whatever comes before it, also triples for the same pair with
  other targets, the table maps \<open>(q, a)\<close> to its target \<open>t\<close> and \<open>transition\<close> returns
  \<open>t\<close>. \<open>final_state\<close> from \<open>q\<close> on the symbol \<open>a\<close> of the alphabet returns \<open>t\<close> when
  \<open>t\<close> is a state; when \<open>t\<close> is \<^verbatim>\<open>None\<close> it fails with \<open>UndefinedTransition\<close>.
\<close>

theorem AFD_init_last_write_wins:
  "delta (AFD_init qs sg i fs (DeltaDict m)) = m \<and>
   AFD_init qs sg i fs (DeltaList ts) =
     AFD_init qs sg i fs (DeltaDict (map_of (rev (map (\<lambda>(q, a, t). ((q, a), t)) ts)))) \<and>
   ((\<forall>tr\<in>set zs. (fst tr, fst (snd tr)) \<noteq> (q, a)) \<longrightarrow>
      delta (AFD_init qs sg i fs (DeltaList (xs @ (q, a, t) # zs))) (q, a) = Some t \<and>
      transition (AFD_init qs sg i fs (DeltaList (xs @ (q, a, t) # zs))) q a = t \<and>
      (a \<in> set sg \<and> t \<noteq> PyNone \<longrightarrow>
         final_state (AFD_init qs sg i fs (DeltaList (xs @ (q, a, t) # zs))) q [a] = Inr t) \<and>
      (a \<in> set sg \<and> t = PyNone \<longrightarrow>
         final_state (AFD_init qs sg i fs (DeltaList (xs @ (q, a, t) # zs))) q [a] =
           Inl (UndefinedTransition q a)))"
proof (intro conjI impI)
  show "delta (AFD_init qs sg i fs (DeltaDict m)) = m"
    by (simp add: AFD_init_def)
next
  show "AFD_init qs sg i fs (DeltaList ts) =
     AFD_init qs sg i fs (DeltaDict (map_of (rev (map (\<lambda>(q, a, t). ((q, a), t)) ts))))"
    by (simp add: AFD_init_def delta_from_list_map_of)
next
  assume zs: "\<forall>tr\<in>set zs. (fst tr, fst (snd tr)) \<noteq> (q, a)"
  show d: "delta (AFD_init qs sg i fs (DeltaList (xs @ (q, a, t) # zs))) (q, a) = Some t"
    using delta_from_list_last_wins [OF zs] by (simp add: AFD_init_def)
  then show tr: "transition (AFD_init qs sg i fs (DeltaList (xs @ (q, a, t) # zs))) q a = t"
    by (simp add: transition_def)
  have sg: "Sigma_afd (AFD_init qs sg i fs (DeltaList (xs @ (q, a, t) # zs))) = sg"
    by (simp add: AFD_init_def)
  {
    assume "a \<in> set sg \<and> t \<noteq> PyNone"
    with tr sg
    show "final_state (AFD_init qs sg i fs (DeltaList (xs @ (q, a, t) # zs))) q [a] = Inr t"
      by (simp add: Let_def)
  }
  {
    assume "a \<in> set sg \<and> t = PyNone"
    with tr sg
    show "final_state (AFD_init qs sg i fs (DeltaList (xs @ (q, a, t) # zs))) q [a] =
           Inl (UndefinedTransition q a)"
      by (simp add: Let_def)
  }
qed

theorem AFD_init_last_write_wins_witness:
  "delta (AFD_init [Label ''q0'', Label ''q1'', Label ''q2''] [CHR ''0'', CHR ''1'']
            (Label ''q0'') [Label ''q2'']
            (DeltaList [(Label ''q0'', CHR ''0'', Label ''q1''),
                        (Label ''q0'', CHR ''0'', Label ''q2''),
                        (Label ''q1'', CHR ''0'', Label ''q1'')]))
     (Label ''q0'', CHR ''0'') = Some (Label ''q2'') \<and>
   final_state (AFD_init [Label ''q0'', Label ''q1'', Label ''q2''] [CHR ''0'', CHR ''1'']
            (Label ''q0'') [Label ''q2'']
            (DeltaList [(Label ''q0'', CHR ''0'', Label ''q1''),
                        (Label ''q0'', CHR ''0'', Label ''q2''),
                        (Label ''q1'', CHR ''0'', Label ''q1'')]))
     (Label ''q0'') ''0'' = Inr (Label ''q2'')"
proof -
  have h: "\<forall>tr\<in>set [(Label ''q1'', CHR ''0'', Label ''q1'')].
             (fst tr, fst (snd tr)) \<noteq> (Label ''q0'', CHR ''0'')"
    by simp
  have a: "CHR ''0'' \<in> set [CHR ''0'', CHR ''1''] \<and> Label ''q2'' \<noteq> PyNone" by simp
  note inst = AFD_init_last_write_wins
      [where qs = "[Label ''q0'', Label ''q1'', Label ''q2'']" and sg = "[CHR ''0'', CHR ''1'']"
         and i = "Label ''q0''" and fs = "[Label ''q2'']" and m = Map.empty and ts = "[]"
         and zs = "[(Label ''q1'', CHR ''0'', Label ''q1'')]" and q = "Label ''q0''"
         and a = "CHR ''0''" and xs = "[(Label ''q0'', CHR ''0'', Label ''q1'')]"
         and t = "Label ''q2''",
       THEN conjunct2, THEN conjunct2, THEN mp, OF h]
  have 1: "delta (AFD_init [Label ''q0'', Label ''q1'', Label ''q2''] [CHR ''0'', CHR ''1'']
            (Label ''q0'') [Label ''q2'']
            (DeltaList ([(Label ''q0'', CHR ''0'', Label ''q1'')] @
                        (Label ''q0'', CHR ''0'', Label ''q2'') #
                        [(Label ''q1'', CHR ''0'', Label ''q1'')])))
     (Label ''q0'', CHR ''0'') = Some (Label ''q2'')"
    by (rule inst [THEN conjunct1])
  have 2: "final_state (AFD_init [Label ''q0'', Label ''q1'', Label ''q2''] [CHR ''0'', CHR ''1'']
            (Label ''q0'') [Label ''q2'']
            (DeltaList ([(Label ''q0'', CHR ''0'', Label ''q1'')] @
                        (Label ''q0'', CHR ''0'', Label ''q2'') #
                        [(Label ''q1'', CHR ''0'', Label ''q1'')])))
     (Label ''q0'') [CHR ''0''] = Inr (Label ''q2'')"
    by (rule inst [THEN conjunct2, THEN conjunct2, THEN conjunct1, THEN mp, OF a])
  from 1 2 show ?thesis by (simp only: append.simps)
qed

text \<open>
  Claim C8. The constructor has no failing branch: for any five arguments, in either
  shape of the transitions, it returns the automaton whose four first components are
  the arguments as given and whose table holds the given entries, checked against
  nothing. The automaton \<open>afd_dangling\<close> is built although its initial state, its
  accepting state, a transition target and a transition symbol are undeclared; asking
  it for the final state from its initial state answers on the empty input and fails
  only when a symbol has to be read.
\<close>

theorem AFD_init_total:
  "Q (AFD_init qs sg i fs d) = qs \<and>
   Sigma_afd (AFD_init qs sg i fs d) = sg \<and>
   q0 (AFD_init qs sg i fs d) = i \<and>
   F (AFD_init qs sg i fs d) = fs \<and>
   delta (AFD_init qs sg i fs (DeltaDict m)) = m \<and>
   dom (delta (AFD_init qs sg i fs (DeltaList ts))) = (\<lambda>(q, a, t). (q, a)) ` set ts \<and>
   q0 afd_dangling \<notin> set (Q afd_dangling) \<and>
   \<not> set (F afd_dangling) \<subseteq> set (Q afd_dangling) \<and>
   delta afd_dangling (Label ''s'', CHR ''a'') = Some (Label ''t'') \<and>
   Label ''t'' \<notin> set (Q afd_dangling) \<and>
   delta afd_dangling (Label ''s'', CHR ''b'') = Some (Label ''s'') \<and>
   CHR ''b'' \<notin> set (Sigma_afd afd_dangling) \<and>
   final_state afd_dangling (q0 afd_dangling) [] = Inr (Label ''zz'') \<and>
   final_state afd_dangling (q0 afd_dangling) ''a'' =
     Inl (UndefinedTransition (Label ''zz'') (CHR ''a''))"
proof (intro conjI)
  show "dom (delta (AFD_init qs sg i fs (DeltaList ts))) = (\<lambda>(q, a, t). (q, a)) ` set ts"
    by (simp add: AFD_init_def dom_delta_from_list)
qed (simp_all add: AFD_init_def afd_dangling_def transition_def)

section \<open>The object after a query\<close>

lemma final_state_st_eq: "final_state_st A q w = (final_state A q w, A)"
  by (induction w arbitrary: q) (simp_all add: transition_st_def transition_def Let_def)

lemma derivation_loop_st_eq:
  "derivation_loop_st A acc q w = (derivation_loop A acc q w, A)"
  by (induction w arbitrary: acc q) (simp_all add: transition_st_def transition_def Let_def)

text \<open>
  Claim C9. Each query returns the object it was called on, equal in all five
  components, whether the query succeeds or fails and also when \<open>accepted\<close> is given an
  accepting list of its own; the results are those of the queries read as functions of
  the automaton, so asking again gives the same answer.
\<close>

theorem queries_leave_automaton_unchanged:
  "transition_st A q a = (transition A q a, A) \<and>
   final_state_st A q w = (final_state A q w, A) \<and>
   derivation_st A q w = (derivation A q w, A) \<and>
   accepted_st A q w F_arg = (accepted A q w F_arg, A)"
proof (intro conjI)
  show "transition_st A q a = (transition A q a, A)"
    by (simp add: transition_st_def transition_def)
  show "final_state_st A q w = (final_state A q w, A)"
    by (rule final_state_st_eq)
  show "derivation_st A q w = (derivation A q w, A)"
    by (simp add: derivation_st_def derivation_def derivation_loop_st_eq)
  show "accepted_st A q w F_arg = (accepted A q w F_arg, A)"
    by (simp add: accepted_st_def accepted_def final_state_st_eq split: sum.splits)
qed

section \<open>The declared states\<close>

lemma transition_Q_update: "transition (A\<lparr>Q := qs\<rparr>) q a = transition A q a"
  by (simp add: transition_def)

lemma final_state_Q_update: "final_state (A\<lparr>Q := qs\<rparr>) q w = final_state A q w"
  by (induction w arbitrary: q) (simp_all add: transition_Q_update Let_def)

lemma derivation_loop_Q_update:
  "derivation_loop (A\<lparr>Q := qs\<rparr>) acc q w = derivation_loop A acc q w"
  by (induction w arbitrary: acc q) (simp_all add: transition_Q_update Let_def)

lemma path_defined_afd2_aab: "path_defined afd2 (Label ''par'') ''aab''"
  by (simp add: afd2_def AFD_init_def)

lemma Sigma_afd2: "Sigma_afd afd2 = [CHR ''a'', CHR ''b'']"
  by (simp add: afd2_def AFD_init_def)

lemma Q_afd_none: "Q afd_none = [Label ''s'']"
  by (simp add: afd_none_def AFD_init_def)

text \<open>
  Claim C10, as stated, fails in its last part. In \<open>afd_none\<close> the state \<open>s\<close> is
  declared, the symbol \<open>a\<close> is in the alphabet and the pair \<open>(s, a)\<close> has a table entry,
  yet the run from \<open>s\<close> over \<open>a\<close> does not succeed, because the entry stores
  \<^verbatim>\<open>None\<close>: \<open>final_state\<close> fails and \<open>accepted\<close> answers false.
\<close>

theorem queries_ignore_declared_states_counterexample:
  "Label ''s'' \<in> set (Q afd_none) \<and>
   set ''a'' \<subseteq> set (Sigma_afd afd_none) \<and>
   entries_on_path afd_none (Label ''s'') ''a'' \<and>
   final_state afd_none (Label ''s'') ''a'' =
     Inl (UndefinedTransition (Label ''s'') (CHR ''a'')) \<and>
   \<not> accepted afd_none (Label ''s'') ''a'' None"
proof (intro conjI)
  show "Label ''s'' \<in> set (Q afd_none)" by (simp add: Q_afd_none)
  show "set ''a'' \<subseteq> set (Sigma_afd afd_none)" by (simp add: Sigma_afd_none)
  show "entries_on_path afd_none (Label ''s'') ''a''" by (rule entries_on_path_afd_none)
  show "final_state afd_none (Label ''s'') ''a'' =
     Inl (UndefinedTransition (Label ''s'') (CHR ''a''))" by (rule final_state_afd_none)
  then show "\<not> accepted afd_none (Label ''s'') ''a'' None"
    by (simp add: accepted_def del: final_state.simps)
qed

text \<open>
  Claim C10, amended. The queries do not read \<open>Q\<close>: replacing the declared states by
  any other list \<open>qs\<close> changes no result of \<open>final_state\<close>, \<open>derivation\<close> or
  \<open>accepted\<close>. A run whose symbols are all in the alphabet and which finds at every
  step a table entry that stores a state and not \<^verbatim>\<open>None\<close> succeeds, also when no
  state at all is declared.
\<close>

theorem queries_ignore_declared_states:
  "final_state (A\<lparr>Q := qs\<rparr>) q w = final_state A q w \<and>
   derivation (A\<lparr>Q := qs\<rparr>) q w = derivation A q w \<and>
   accepted (A\<lparr>Q := qs\<rparr>) q w F_arg = accepted A q w F_arg \<and>
   (set w \<subseteq> set (Sigma_afd A) \<and> path_defined A q w \<longrightarrow>
      (\<exists>st tr. final_state (A\<lparr>Q := []\<rparr>) q w = Inr st \<and>
               derivation (A\<lparr>Q := []\<rparr>) q w = Inr tr))"
proof (intro conjI impI)
  show "final_state (A\<lparr>Q := qs\<rparr>) q w = final_state A q w"
    by (rule final_state_Q_update)
  show "derivation (A\<lparr>Q := qs\<rparr>) q w = derivation A q w"
    by (simp add: derivation_def derivation_loop_Q_update)
  show "accepted (A\<lparr>Q := qs\<rparr>) q w F_arg = accepted A q w F_arg"
    by (cases F_arg) (simp_all add: accepted_def final_state_Q_update)
next
  assume "set w \<subseteq> set (Sigma_afd A) \<and> path_defined A q w"
  then have "\<exists>st. final_state A q w = Inr st"
    by (simp add: path_defined_final_state)
  moreover from this have "\<exists>tr. derivation A q w = Inr tr"
    by (simp only: derivation_Inr_iff)
  ultimately show "\<exists>st tr. final_state (A\<lparr>Q := []\<rparr>) q w = Inr st \<and>
               derivation (A\<lparr>Q := []\<rparr>) q w = Inr tr"
    by (simp add: final_state_Q_update derivation_def derivation_loop_Q_update)
qed

theorem queries_ignore_declared_states_witness:
  "set ''aab'' \<subseteq> set (Sigma_afd afd2) \<and> path_defined afd2 (Label ''par'') ''aab'' \<and>
   Q (afd2\<lparr>Q := []\<rparr>) = [] \<and>
   (\<exists>st tr. final_state (afd2\<lparr>Q := []\<rparr>) (Label ''par'') ''aab'' = Inr st \<and>
            derivation (afd2\<lparr>Q := []\<rparr>) (Label ''par'') ''aab'' = Inr tr)"
proof -
  have h: "set ''aab'' \<subseteq> set (Sigma_afd afd2) \<and> path_defined afd2 (Label ''par'') ''aab''"
    by (simp add: Sigma_afd2 path_defined_afd2_aab del: path_defined.simps)
  have r: "\<exists>st tr. final_state (afd2\<lparr>Q := []\<rparr>) (Label ''par'') ''aab'' = Inr st \<and>
            derivation (afd2\<lparr>Q := []\<rparr>) (Label ''par'') ''aab'' = Inr tr"
    by (rule queries_ignore_declared_states
               [where A = afd2 and qs = "[]" and q = "Label ''par''" and w = "''aab''"
                  and F_arg = None,
                THEN conjunct2, THEN conjunct2, THEN conjunct2, THEN mp, OF h])
  have e: "Q (afd2\<lparr>Q := []\<rparr>) = []" by simp
  from h e r show ?thesis by (simp only: simp_thms)
qed

end
